theory Spec2Isabelle
  imports Complex_Main
begin

section \<open>Python values as produced by the JSON decoder\<close>

text \<open>
  The record handed to \<open>validate_extraction\<close> is the result of \<open>json.loads\<close>: nested
  dictionaries with string keys whose values are \<open>None\<close>, booleans, integers, floats,
  strings, lists and dictionaries. The validator never does arithmetic on floats, it only
  compares them, and Python compares numbers by their exact mathematical value; a finite
  float is therefore represented by the rational it denotes, next to the three special
  values the decoder accepts (\<open>Infinity\<close>, \<open>-Infinity\<close>, \<open>NaN\<close>).
\<close>

datatype pyfloat = Finite rat | PosInf | NegInf | NaN

datatype pyval =
    PNone
  | PBool bool
  | PInt int
  | PFloat pyfloat
  | PStr string
  | PList "pyval list"
  | PDict "(string \<times> pyval) list"

text \<open>A dictionary is an association list; it denotes the mapping \<open>map_of\<close>.\<close>

type_synonym pydict = "(string \<times> pyval) list"

datatype py_error = TypeError

text \<open>\<open>key in d\<close> and \<open>d.get(key)\<close> (which yields \<open>None\<close> for an absent key).\<close>

definition has_key :: "pydict \<Rightarrow> string \<Rightarrow> bool" where
  "has_key d k = (map_of d k \<noteq> None)"

definition dict_get :: "pydict \<Rightarrow> string \<Rightarrow> pyval" where
  "dict_get d k = (case map_of d k of None \<Rightarrow> PNone | Some v \<Rightarrow> v)"

text \<open>
  \<open>isinstance(v, int)\<close>, \<open>isinstance(v, (int, float))\<close> and \<open>isinstance(v, dict)\<close>.
  In Python \<open>bool\<close> is a subclass of \<open>int\<close>.
\<close>

fun isinstance_int :: "pyval \<Rightarrow> bool" where
  "isinstance_int (PInt i) = True"
| "isinstance_int (PBool b) = True"
| "isinstance_int v = False"

fun isinstance_int_float :: "pyval \<Rightarrow> bool" where
  "isinstance_int_float (PInt i) = True"
| "isinstance_int_float (PBool b) = True"
| "isinstance_int_float (PFloat f) = True"
| "isinstance_int_float v = False"

fun isinstance_dict :: "pyval \<Rightarrow> bool" where
  "isinstance_dict (PDict e) = True"
| "isinstance_dict v = False"

subsection \<open>Comparison operators\<close>

text \<open>The numeric value of a number; \<open>True\<close> is 1 and \<open>False\<close> is 0.\<close>

fun as_number :: "pyval \<Rightarrow> pyfloat option" where
  "as_number (PBool b) = Some (Finite (if b then 1 else 0))"
| "as_number (PInt i) = Some (Finite (of_int i))"
| "as_number (PFloat f) = Some f"
| "as_number v = None"

fun float_lt :: "pyfloat \<Rightarrow> pyfloat \<Rightarrow> bool" where
  "float_lt NaN y = False"
| "float_lt x NaN = False"
| "float_lt x NegInf = False"
| "float_lt NegInf y = True"
| "float_lt PosInf y = False"
| "float_lt (Finite a) PosInf = True"
| "float_lt (Finite a) (Finite b) = (a < b)"

fun float_eq :: "pyfloat \<Rightarrow> pyfloat \<Rightarrow> bool" where
  "float_eq NaN y = False"
| "float_eq x NaN = False"
| "float_eq x y = (x = y)"

text \<open>The two ordering operators the validator uses: \<open>></\<close> and \<open><=\<close>.\<close>

datatype cmp_op = Gt | Le

fun num_cmp :: "cmp_op \<Rightarrow> pyfloat \<Rightarrow> pyfloat \<Rightarrow> bool" where
  "num_cmp Gt x y = float_lt y x"
| "num_cmp Le x y = (float_lt x y \<or> float_eq x y)"

text \<open>
  Strings compare lexicographically by code point. A string is held as the list of its
  UTF-8 bytes, whose lexicographic order is the order of the code points.
\<close>

fun str_lt :: "string \<Rightarrow> string \<Rightarrow> bool" where
  "str_lt [] [] = False"
| "str_lt [] (y # ys) = True"
| "str_lt (x # xs) [] = False"
| "str_lt (x # xs) (y # ys) =
     (if x = y then str_lt xs ys else (of_char x :: nat) < of_char y)"

fun str_cmp :: "cmp_op \<Rightarrow> string \<Rightarrow> string \<Rightarrow> bool" where
  "str_cmp Gt a b = str_lt b a"
| "str_cmp Le a b = (str_lt a b \<or> a = b)"

fun len_cmp :: "cmp_op \<Rightarrow> nat \<Rightarrow> nat \<Rightarrow> bool" where
  "len_cmp Gt m n = (m > n)"
| "len_cmp Le m n = (m \<le> n)"

text \<open>
  Containers compare their elements with ``identical or \<open>==\<close>''. Equality never raises.
  Two values of different kinds are unequal, numbers are equal when their values are
  (so \<open>True == 1 == 1.0\<close>), and \<open>NaN\<close> is unequal to every number; but the decoder maps
  every \<open>NaN\<close> token to one shared float object, so inside containers two \<open>NaN\<close> elements
  are identical and count as equal.
\<close>

function (sequential) elem_eq :: "pyval \<Rightarrow> pyval \<Rightarrow> bool" where
  "elem_eq PNone PNone = True"
| "elem_eq (PStr a) (PStr b) = (a = b)"
| "elem_eq (PList a) (PList b) = list_all2 elem_eq a b"
| "elem_eq (PDict a) (PDict b) =
     (set (map fst a) = set (map fst b) \<and>
      list_all (\<lambda>k. case (map_of a k, map_of b k) of
                       (Some x, Some y) \<Rightarrow> elem_eq x y
                     | _ \<Rightarrow> False) (map fst a))"
| "elem_eq v w =
     (case (as_number v, as_number w) of
        (Some a, Some b) \<Rightarrow> float_eq a b \<or> (v = PFloat NaN \<and> w = PFloat NaN)
      | _ \<Rightarrow> False)"
  by pat_completeness auto
termination
proof (relation "measure (\<lambda>(v, w). size v)", goal_cases)
  case 1
  show ?case by simp
next
  case 2
  then show ?case
    by (simp add: size_list_estimation' less_Suc_eq_le)
next
  case (3 a b k)
  have entry: "size x < Suc (size_list (size_prod (\<lambda>_. 0) size) c)"
    if "map_of c k = Some x" for c :: pydict and x
    using that by (induction c) (auto split: if_splits)
  from 3 show ?case
    by (auto intro: entry [OF sym])
qed

text \<open>
  The ordering operators. Numbers (booleans included) compare by value and every
  ordering against \<open>NaN\<close> is false; strings compare with strings and lists with lists;
  every other pairing raises \<open>TypeError\<close>, dictionaries included. Lists skip the common
  prefix of equal elements: if one list runs out the lengths decide, otherwise the
  operator is applied to the first pair of elements that differ, which may raise.
\<close>

function (sequential) py_cmp :: "cmp_op \<Rightarrow> pyval \<Rightarrow> pyval \<Rightarrow> py_error + bool"
  and list_cmp :: "cmp_op \<Rightarrow> pyval list \<Rightarrow> pyval list \<Rightarrow> py_error + bool" where
  "py_cmp op (PStr a) (PStr b) = Inr (str_cmp op a b)"
| "py_cmp op (PList a) (PList b) = list_cmp op a b"
| "py_cmp op v w =
     (case (as_number v, as_number w) of
        (Some a, Some b) \<Rightarrow> Inr (num_cmp op a b)
      | _ \<Rightarrow> Inl TypeError)"
| "list_cmp op (x # xs) (y # ys) =
     (if elem_eq x y then list_cmp op xs ys else py_cmp op x y)"
| "list_cmp op xs ys = Inr (len_cmp op (length xs) (length ys))"
  by pat_completeness auto
termination
  by (relation "measure (\<lambda>t. case t of Inl (op, v, w) \<Rightarrow> size v
                                  | Inr (op, xs, ys) \<Rightarrow> size_list size xs)") auto

text \<open>The chained comparison \<open>a <= b <= c\<close>: \<open>b <= c\<close> is evaluated only if \<open>a <= b\<close> holds.\<close>

definition chained_le :: "pyval \<Rightarrow> pyval \<Rightarrow> pyval \<Rightarrow> py_error + bool" where
  "chained_le a b c =
     (case py_cmp Le a b of
        Inl e \<Rightarrow> Inl e
      | Inr t \<Rightarrow> if t then py_cmp Le b c else Inr False)"

section \<open>The validation engine\<close>

text \<open>
  \<open>validate_extraction(data)\<close> reads the argument \<open>data\<close> and builds the local list
  \<open>errors\<close> by \<open>errors.append\<close>. The two objects are the state the statements work on.
  The argument is a dictionary, the candidate record; its values are of any type.
\<close>

record frame =
  data :: pydict
  errors :: "string list"

definition errors_append :: "string \<Rightarrow> frame \<Rightarrow> frame" where
  "errors_append msg s = s\<lparr>errors := errors s @ [msg]\<rparr>"

definition REQUIRED_FIELDS :: "string list" where
  "REQUIRED_FIELDS =
     [''title'', ''study_design'', ''population'', ''sample_size'', ''outcome'', ''effect_size'']"

text \<open>
  A block of statements maps the frame to the exception it raised, if any, and the frame
  at that point.
\<close>

text \<open>\<^verbatim>\<open>for field in REQUIRED_FIELDS: if field not in data: errors.append(...)\<close>\<close>

definition check_required_fields :: "frame \<Rightarrow> frame" where
  "check_required_fields s =
     fold (\<lambda>field s. if \<not> has_key (data s) field
                      then errors_append (''Missing field: '' @ field) s else s)
       REQUIRED_FIELDS s"

text \<open>
  \<^verbatim>\<open>sample_size = data.get("sample_size")\<close>, then the type test and, on the \<open>elif\<close>,
  \<^verbatim>\<open>sample_size <= 0\<close>.
\<close>

definition check_sample_size :: "frame \<Rightarrow> py_error option \<times> frame" where
  "check_sample_size s =
     (let sample_size = dict_get (data s) ''sample_size'' in
      if sample_size \<noteq> PNone then
        if \<not> isinstance_int sample_size
        then (None, errors_append ''sample_size must be an integer or null'' s)
        else (case py_cmp Le sample_size (PInt 0) of
                Inl e \<Rightarrow> (Some e, s)
              | Inr b \<Rightarrow> (None, if b then errors_append ''sample_size must be > 0'' s else s))
      else (None, s))"

text \<open>\<^verbatim>\<open>if lower is not None and upper is not None: if lower > upper: ...\<close>\<close>

definition check_ci_order :: "pyval \<Rightarrow> pyval \<Rightarrow> frame \<Rightarrow> py_error option \<times> frame" where
  "check_ci_order lower upper s =
     (if lower \<noteq> PNone \<and> upper \<noteq> PNone then
        (case py_cmp Gt lower upper of
           Inl e \<Rightarrow> (Some e, s)
         | Inr b \<Rightarrow>
             (None, if b then errors_append ''lower_ci cannot be greater than upper_ci'' s
                    else s))
      else (None, s))"

text \<open>
  \<^verbatim>\<open>if value is not None and lower is not None and upper is not None:\<close>
  \<^verbatim>\<open>if not (lower <= value <= upper): ...\<close>
\<close>

definition check_value_range ::
  "pyval \<Rightarrow> pyval \<Rightarrow> pyval \<Rightarrow> frame \<Rightarrow> py_error option \<times> frame" where
  "check_value_range val lower upper s =
     (if val \<noteq> PNone \<and> lower \<noteq> PNone \<and> upper \<noteq> PNone then
        (case chained_le lower val upper of
           Inl e \<Rightarrow> (Some e, s)
         | Inr b \<Rightarrow>
             (None,
              if \<not> b
              then errors_append ''effect_size.value must be between lower_ci and upper_ci'' s
              else s))
      else (None, s))"

text \<open>The \<open>else\<close> branch of the effect-size check, entered with the dictionary \<open>effect\<close>.\<close>

definition check_effect_fields :: "pydict \<Rightarrow> frame \<Rightarrow> py_error option \<times> frame" where
  "check_effect_fields effect s =
     (let s = fold (\<lambda>key s. if \<not> has_key effect key
                             then errors_append (''Missing effect_size field: '' @ key) s
                             else s)
                [''type'', ''value'', ''lower_ci'', ''upper_ci''] s;
          val = dict_get effect ''value'';
          lower = dict_get effect ''lower_ci'';
          upper = dict_get effect ''upper_ci'';
          s = fold (\<lambda>(name, v) s.
                      if v \<noteq> PNone \<and> \<not> isinstance_int_float v
                      then errors_append (''effect_size.'' @ name @ '' must be numeric or null'') s
                      else s)
                [(''value'', val), (''lower_ci'', lower), (''upper_ci'', upper)] s
      in case check_ci_order lower upper s of
           (Some e, s) \<Rightarrow> (Some e, s)
         | (None, s) \<Rightarrow> check_value_range val lower upper s)"

text \<open>
  \<^verbatim>\<open>effect = data.get("effect_size")\<close>; \<^verbatim>\<open>if not isinstance(effect, dict): ... else: ...\<close>
\<close>

definition check_effect_size :: "frame \<Rightarrow> py_error option \<times> frame" where
  "check_effect_size s =
     (let effect = dict_get (data s) ''effect_size'' in
      case effect of
        PDict e \<Rightarrow> check_effect_fields e s
      | _ \<Rightarrow> (None, errors_append ''effect_size must be an object'' s))"

definition validate_extraction_frame :: "pydict \<Rightarrow> py_error option \<times> frame" where
  "validate_extraction_frame d =
     (let s = \<lparr>data = d, errors = []\<rparr>;
          s = check_required_fields s
      in case check_sample_size s of
           (Some e, s) \<Rightarrow> (Some e, s)
         | (None, s) \<Rightarrow> check_effect_size s)"

text \<open>What the caller sees: the exception, or the list returned by \<open>return errors\<close>.\<close>

definition validate_extraction :: "pydict \<Rightarrow> py_error + string list" where
  "validate_extraction d =
     (case validate_extraction_frame d of
        (Some e, s) \<Rightarrow> Inl e
      | (None, s) \<Rightarrow> Inr (errors s))"

section \<open>The check sequence of the specification\<close>

text \<open>
  The seven checks of the specified algorithm, each as the list of violations it
  contributes, written from the specification's wording and independent of one another.
\<close>

text \<open>The integer an \<open>int\<close> instance stands for.\<close>

fun int_value :: "pyval \<Rightarrow> int" where
  "int_value (PInt i) = i"
| "int_value (PBool b) = (if b then 1 else 0)"
| "int_value v = 0"

text \<open>1. Field presence.\<close>

definition missing_fields :: "pydict \<Rightarrow> string list" where
  "missing_fields d =
     map (\<lambda>name. ''Missing field: '' @ name) (filter (\<lambda>name. \<not> has_key d name) REQUIRED_FIELDS)"

text \<open>2. Sample size: a type violation, otherwise a range violation.\<close>

definition sample_size_violations :: "pydict \<Rightarrow> string list" where
  "sample_size_violations d =
     (let v = dict_get d ''sample_size'' in
      if v = PNone then []
      else if \<not> isinstance_int v then [''sample_size must be an integer or null'']
      else if int_value v \<le> 0 then [''sample_size must be > 0'']
      else [])"

text \<open>3. Effect-size shape.\<close>

definition shape_violation :: "pydict \<Rightarrow> string list" where
  "shape_violation d =
     (if isinstance_dict (dict_get d ''effect_size'') then []
      else [''effect_size must be an object''])"

text \<open>4. Effect-size field presence.\<close>

definition missing_effect_fields :: "pydict \<Rightarrow> string list" where
  "missing_effect_fields e =
     map (\<lambda>name. ''Missing effect_size field: '' @ name)
       (filter (\<lambda>name. \<not> has_key e name) [''type'', ''value'', ''lower_ci'', ''upper_ci''])"

text \<open>5. Effect-size numeric typing.\<close>

definition numeric_type_violations :: "pydict \<Rightarrow> string list" where
  "numeric_type_violations e =
     map (\<lambda>name. ''effect_size.'' @ name @ '' must be numeric or null'')
       (filter (\<lambda>name. dict_get e name \<noteq> PNone \<and> \<not> isinstance_int_float (dict_get e name))
          [''value'', ''lower_ci'', ''upper_ci''])"

text \<open>6. CI ordering.\<close>

definition ci_order_violation :: "pydict \<Rightarrow> string list" where
  "ci_order_violation e =
     (let lower = dict_get e ''lower_ci''; upper = dict_get e ''upper_ci'' in
      if lower \<noteq> PNone \<and> upper \<noteq> PNone \<and> py_cmp Gt lower upper = Inr True
      then [''lower_ci cannot be greater than upper_ci''] else [])"

text \<open>7. Value in range.\<close>

definition value_range_violation :: "pydict \<Rightarrow> string list" where
  "value_range_violation e =
     (let val = dict_get e ''value''; lower = dict_get e ''lower_ci'';
          upper = dict_get e ''upper_ci'' in
      if val \<noteq> PNone \<and> lower \<noteq> PNone \<and> upper \<noteq> PNone \<and>
         chained_le lower val upper = Inr False
      then [''effect_size.value must be between lower_ci and upper_ci''] else [])"

text \<open>Checks 4 to 7 on the effect-size record, skipped when it is not a record.\<close>

definition nested_violations :: "pydict \<Rightarrow> string list" where
  "nested_violations d =
     (case dict_get d ''effect_size'' of
        PDict e \<Rightarrow>
          missing_effect_fields e @ numeric_type_violations e @
          ci_order_violation e @ value_range_violation e
      | _ \<Rightarrow> [])"

text \<open>
  The inputs on which one of the two comparisons of checks 6 and 7 raises: both bounds
  are non-null and either \<open>lower > upper\<close> is not defined for them, or the value is
  non-null as well and \<open>lower <= value <= upper\<close> is not.
\<close>

definition effect_comparison_raises :: "pydict \<Rightarrow> bool" where
  "effect_comparison_raises e =
     (let val = dict_get e ''value''; lower = dict_get e ''lower_ci'';
          upper = dict_get e ''upper_ci'' in
      lower \<noteq> PNone \<and> upper \<noteq> PNone \<and>
      (py_cmp Gt lower upper = Inl TypeError \<or>
       (val \<noteq> PNone \<and> chained_le lower val upper = Inl TypeError)))"

definition comparison_raises :: "pydict \<Rightarrow> bool" where
  "comparison_raises d =
     (case dict_get d ''effect_size'' of
        PDict e \<Rightarrow> effect_comparison_raises e
      | _ \<Rightarrow> False)"

section \<open>Records used in the examples\<close>

text \<open>
  The record of the specification's end-to-end scenarios, with the sample size and the
  effect size left open, and its effect-size record with the three numbers left open.
\<close>

definition effect_record :: "pyval \<Rightarrow> pyval \<Rightarrow> pyval \<Rightarrow> pydict" where
  "effect_record val lower upper =
     [(''type'', PStr ''OR''), (''value'', val), (''lower_ci'', lower), (''upper_ci'', upper)]"

definition study_record :: "pyval \<Rightarrow> pyval \<Rightarrow> pydict" where
  "study_record sample_size effect =
     [(''title'', PStr ''T''), (''study_design'', PStr ''D''), (''population'', PStr ''P''),
      (''sample_size'', sample_size), (''outcome'', PStr ''O''), (''effect_size'', effect)]"





section \<open>The validator computes the check sequence\<close>

lemma py_error_is_TypeError: "(e :: py_error) = TypeError"
  by (cases e) simp

lemma data_errors_append [simp]: "data (errors_append msg s) = data s"
  by (simp add: errors_append_def)

lemma errors_errors_append [simp]: "errors (errors_append msg s) = errors s @ [msg]"
  by (simp add: errors_append_def)

lemma fold_errors_append:
  "fold (\<lambda>x s. if c (data s) x then errors_append (g x) s else s) xs s =
   s\<lparr>errors := errors s @ map g (filter (c (data s)) xs)\<rparr>"
  by (induction xs arbitrary: s) (simp_all add: errors_append_def)

lemma fold_pairs_errors_append:
  "fold (\<lambda>(name, v) s. if c v then errors_append (g name) s else s) xs s =
   s\<lparr>errors := errors s @ map (g \<circ> fst) (filter (c \<circ> snd) xs)\<rparr>"
  by (induction xs arbitrary: s) (auto simp: errors_append_def)

lemma check_required_fields_eq:
  "check_required_fields s = s\<lparr>errors := errors s @ missing_fields (data s)\<rparr>"
  unfolding check_required_fields_def missing_fields_def
  using fold_errors_append [of "\<lambda>d name. \<not> has_key d name" "\<lambda>name. ''Missing field: '' @ name"]
  by simp

lemma sample_size_le_zero:
  "isinstance_int v \<Longrightarrow> py_cmp Le v (PInt 0) = Inr (int_value v \<le> 0)"
  by (cases v) (simp_all add: order.order_iff_strict)

lemma check_sample_size_eq:
  "check_sample_size s = (None, s\<lparr>errors := errors s @ sample_size_violations (data s)\<rparr>)"
  unfolding check_sample_size_def sample_size_violations_def Let_def errors_append_def
  by (simp add: sample_size_le_zero del: py_cmp.simps)

lemma check_ci_order_eq:
  "check_ci_order lower upper s =
     (if lower \<noteq> PNone \<and> upper \<noteq> PNone \<and> py_cmp Gt lower upper = Inl TypeError
      then (Some TypeError, s)
      else (None, s\<lparr>errors := errors s @
              (if lower \<noteq> PNone \<and> upper \<noteq> PNone \<and> py_cmp Gt lower upper = Inr True
               then [''lower_ci cannot be greater than upper_ci''] else [])\<rparr>))"
  unfolding check_ci_order_def errors_append_def
  by (cases "py_cmp Gt lower upper") (simp_all add: py_error_is_TypeError del: py_cmp.simps)

lemma check_value_range_eq:
  "check_value_range val lower upper s =
     (if val \<noteq> PNone \<and> lower \<noteq> PNone \<and> upper \<noteq> PNone \<and>
         chained_le lower val upper = Inl TypeError
      then (Some TypeError, s)
      else (None, s\<lparr>errors := errors s @
              (if val \<noteq> PNone \<and> lower \<noteq> PNone \<and> upper \<noteq> PNone \<and>
                  chained_le lower val upper = Inr False
               then [''effect_size.value must be between lower_ci and upper_ci''] else [])\<rparr>))"
  unfolding check_value_range_def errors_append_def
  by (cases "chained_le lower val upper") (simp_all add: py_error_is_TypeError)

lemma numeric_type_violations_pairs:
  "numeric_type_violations e =
     map ((\<lambda>name. ''effect_size.'' @ name @ '' must be numeric or null'') \<circ> fst)
       (filter ((\<lambda>v. v \<noteq> PNone \<and> \<not> isinstance_int_float v) \<circ> snd)
          [(''value'', dict_get e ''value''), (''lower_ci'', dict_get e ''lower_ci''),
           (''upper_ci'', dict_get e ''upper_ci'')])"
  by (simp add: numeric_type_violations_def)

lemma effect_loops_eq:
  "fold (\<lambda>(name, v) s.
            if v \<noteq> PNone \<and> \<not> isinstance_int_float v
            then errors_append (''effect_size.'' @ name @ '' must be numeric or null'') s
            else s)
     [(''value'', dict_get e ''value''), (''lower_ci'', dict_get e ''lower_ci''),
      (''upper_ci'', dict_get e ''upper_ci'')]
     (fold (\<lambda>key s. if \<not> has_key e key
                      then errors_append (''Missing effect_size field: '' @ key) s else s)
        [''type'', ''value'', ''lower_ci'', ''upper_ci''] s) =
   s\<lparr>errors := errors s @ missing_effect_fields e @ numeric_type_violations e\<rparr>"
  unfolding numeric_type_violations_pairs missing_effect_fields_def
    fold_pairs_errors_append
      [of "\<lambda>v. v \<noteq> PNone \<and> \<not> isinstance_int_float v"
          "\<lambda>name. ''effect_size.'' @ name @ '' must be numeric or null''"]
    fold_errors_append
      [of "\<lambda>d key. \<not> has_key e key" "\<lambda>key. ''Missing effect_size field: '' @ key"]
  by simp

text \<open>
  The nested block: when a comparison raises, the list holds what was appended before
  the raise; otherwise it holds the violations of checks 4 to 7, in this order.
\<close>

lemma check_effect_fields_eq:
  "check_effect_fields e s =
     (if effect_comparison_raises e
      then (Some TypeError,
            s\<lparr>errors := errors s @ missing_effect_fields e @ numeric_type_violations e @
               (if py_cmp Gt (dict_get e ''lower_ci'') (dict_get e ''upper_ci'') = Inl TypeError
                then [] else ci_order_violation e)\<rparr>)
      else (None,
            s\<lparr>errors := errors s @ missing_effect_fields e @ numeric_type_violations e @
               ci_order_violation e @ value_range_violation e\<rparr>))"
  unfolding check_effect_fields_def Let_def effect_loops_eq check_ci_order_eq check_value_range_eq
    effect_comparison_raises_def ci_order_violation_def value_range_violation_def
  by (simp del: py_cmp.simps)

lemma check_effect_size_data: "data (snd (check_effect_size s)) = data s"
  unfolding check_effect_size_def Let_def
  by (cases "dict_get (data s) ''effect_size''") (simp_all add: check_effect_fields_eq)

lemma check_effect_size_eq:
  "check_effect_size s =
     (if comparison_raises (data s) then (Some TypeError, snd (check_effect_size s))
      else (None, s\<lparr>errors := errors s @ shape_violation (data s) @ nested_violations (data s)\<rparr>))"
  unfolding check_effect_size_def Let_def comparison_raises_def shape_violation_def
    nested_violations_def
  by (cases "dict_get (data s) ''effect_size''")
    (simp_all add: check_effect_fields_eq errors_append_def)

lemma validate_extraction_frame_data: "data (snd (validate_extraction_frame d)) = d"
  unfolding validate_extraction_frame_def Let_def check_sample_size_eq check_required_fields_eq
  by (simp add: check_effect_size_data)

text \<open>
  The whole call: it raises exactly when a comparison of checks 6 and 7 does, and
  otherwise returns the violations of the seven checks, one check after the other.
\<close>

lemma validate_extraction_eq:
  "validate_extraction d =
     (if comparison_raises d then Inl TypeError
      else Inr (missing_fields d @ sample_size_violations d @ shape_violation d @
                nested_violations d))"
proof -
  let ?s = "\<lparr>data = d, errors = missing_fields d @ sample_size_violations d\<rparr>"
  have "validate_extraction_frame d = check_effect_size ?s"
    unfolding validate_extraction_frame_def Let_def check_sample_size_eq check_required_fields_eq
    by simp
  then show ?thesis
    unfolding validate_extraction_def
    by (subst (asm) check_effect_size_eq) (simp split: if_splits)
qed

subsection \<open>Evaluation on the example records and shapes of the messages\<close>

lemma study_record_simps:
  "dict_get (study_record ss e) ''sample_size'' = ss"
  "dict_get (study_record ss e) ''effect_size'' = e"
  "missing_fields (study_record ss e) = []"
  by (simp_all add: study_record_def dict_get_def missing_fields_def has_key_def
      REQUIRED_FIELDS_def)

lemma effect_record_simps:
  "dict_get (effect_record v l u) ''value'' = v"
  "dict_get (effect_record v l u) ''lower_ci'' = l"
  "dict_get (effect_record v l u) ''upper_ci'' = u"
  "missing_effect_fields (effect_record v l u) = []"
  by (simp_all add: effect_record_def dict_get_def missing_effect_fields_def has_key_def)

lemmas check_defs =
  comparison_raises_def effect_comparison_raises_def sample_size_violations_def
  shape_violation_def nested_violations_def numeric_type_violations_def
  ci_order_violation_def value_range_violation_def chained_le_def

lemma not_dict_simps:
  assumes "\<not> isinstance_dict (dict_get d ''effect_size'')"
  shows "comparison_raises d = False" and "nested_violations d = []"
    and "shape_violation d = [''effect_size must be an object'']"
  using assms unfolding comparison_raises_def nested_violations_def shape_violation_def
  by (cases "dict_get d ''effect_size''"; simp)+

lemma missing_fields_all_present:
  "list_all (has_key d) REQUIRED_FIELDS \<Longrightarrow> missing_fields d = []"
  by (simp add: missing_fields_def list_all_iff filter_empty_conv)

lemma missing_fields_prefix:
  "m \<in> set (missing_fields d) \<Longrightarrow> \<exists>name. m = ''Missing field: '' @ name"
  by (auto simp: missing_fields_def)

lemma sample_size_violations_cases:
  "m \<in> set (sample_size_violations d) \<Longrightarrow>
   m = ''sample_size must be an integer or null'' \<or> m = ''sample_size must be > 0''"
  by (auto simp: sample_size_violations_def Let_def split: if_splits)

lemma absent_get: "\<not> has_key d k \<Longrightarrow> dict_get d k = PNone"
  by (simp add: has_key_def dict_get_def)

lemma has_key_append: "has_key (d @ [(k, v)]) name \<longleftrightarrow> has_key d name \<or> name = k"
  by (auto simp: has_key_def map_add_def split: option.splits)

lemma dict_get_append:
  "dict_get (d @ [(k, v)]) name =
     (if has_key d name then dict_get d name else if name = k then v else PNone)"
  by (auto simp: has_key_def dict_get_def map_add_def split: option.splits)

lemma missing_fields_append:
  "missing_fields (d @ [(k, v)]) = removeAll (''Missing field: '' @ k) (missing_fields d)"
  by (simp add: missing_fields_def has_key_append removeAll_filter_not_eq filter_map comp_def
      conj_commute eq_commute)

lemmas eval_defs = validate_extraction_eq check_defs missing_fields_def missing_effect_fields_def
  REQUIRED_FIELDS_def has_key_def dict_get_def

lemma in_map_filter: "m \<in> set (map g (filter P xs)) \<Longrightarrow> \<exists>x. m = g x"
  by auto

lemma shape_violation_cases:
  "m \<in> set (shape_violation d) \<Longrightarrow> m = ''effect_size must be an object''"
  by (simp add: shape_violation_def split: if_splits)

lemma missing_effect_fields_prefix:
  "m \<in> set (missing_effect_fields e) \<Longrightarrow> \<exists>name. m = ''Missing effect_size field: '' @ name"
  unfolding missing_effect_fields_def by (rule in_map_filter)

lemma numeric_type_violations_prefix:
  "m \<in> set (numeric_type_violations e) \<Longrightarrow>
   \<exists>name. m = ''effect_size.'' @ name @ '' must be numeric or null''"
  unfolding numeric_type_violations_def by (rule in_map_filter)

lemma ci_order_violation_cases:
  "m \<in> set (ci_order_violation e) \<Longrightarrow> m = ''lower_ci cannot be greater than upper_ci''"
  by (simp add: ci_order_violation_def Let_def split: if_splits)

lemma value_range_violation_cases:
  "m \<in> set (value_range_violation e) \<Longrightarrow>
   m = ''effect_size.value must be between lower_ci and upper_ci''"
  by (simp add: value_range_violation_def Let_def split: if_splits)

lemma nested_violations_cases:
  assumes "m \<in> set (nested_violations d)"
  shows "(\<exists>name. m = ''Missing effect_size field: '' @ name) \<or>
         (\<exists>name. m = ''effect_size.'' @ name @ '' must be numeric or null'') \<or>
         m = ''lower_ci cannot be greater than upper_ci'' \<or>
         m = ''effect_size.value must be between lower_ci and upper_ci''"
proof (cases "dict_get d ''effect_size''")
  case (PDict e)
  with assms have "m \<in> set (missing_effect_fields e) \<or> m \<in> set (numeric_type_violations e) \<or>
      m \<in> set (ci_order_violation e) \<or> m \<in> set (value_range_violation e)"
    by (simp add: nested_violations_def)
  then show ?thesis
    using missing_effect_fields_prefix numeric_type_violations_prefix ci_order_violation_cases
      value_range_violation_cases by blast
qed (use assms in \<open>simp_all add: nested_violations_def\<close>)


text \<open>Only check 2 reports a sample-size message.\<close>

lemma not_sample_size_message:
  assumes "m \<in> set (missing_fields d) \<or> m \<in> set (shape_violation d) \<or>
           m \<in> set (nested_violations d)"
  shows "m \<noteq> ''sample_size must be an integer or null'' \<and> m \<noteq> ''sample_size must be > 0''"
proof -
  from assms consider
    (missing) name where "m = ''Missing field: '' @ name"
    | (shape) "m = ''effect_size must be an object''"
    | (sub) name where "m = ''Missing effect_size field: '' @ name"
    | (numeric) name where "m = ''effect_size.'' @ name @ '' must be numeric or null''"
    | (order) "m = ''lower_ci cannot be greater than upper_ci''"
    | (range) "m = ''effect_size.value must be between lower_ci and upper_ci''"
    using missing_fields_prefix shape_violation_cases nested_violations_cases by blast
  then show ?thesis
    by cases simp_all
qed

lemma sample_size_messages:
  assumes "m = ''sample_size must be an integer or null'' \<or> m = ''sample_size must be > 0''"
  shows "m \<in> set (missing_fields d @ sample_size_violations d @ shape_violation d @
                    nested_violations d) \<longleftrightarrow> m \<in> set (sample_size_violations d)"
  using assms not_sample_size_message [of m d] by auto

lemma validate_extraction_cases:
  "(case validate_extraction d of Inl e \<Rightarrow> comparison_raises d | Inr errs \<Rightarrow> P errs) \<longleftrightarrow>
   comparison_raises d \<or>
   P (missing_fields d @ sample_size_violations d @ shape_violation d @ nested_violations d)"
  by (simp add: validate_extraction_eq)


lemma dict_get_empty: "dict_get [] k = PNone"
  by (simp add: dict_get_def)

subsection \<open>Booleans read as integers\<close>
















subsection \<open>An inverted interval\<close>

text \<open>
  With \<open>lower_ci = 5\<close> and \<open>upper_ci = 2\<close> the CI-ordering violation is in the returned
  list when \<open>value\<close> is null or a number.
\<close>

lemma ci_order_violation_for_numeric_value:
  assumes "dict_get d ''effect_size'' = PDict e"
    and "dict_get e ''lower_ci'' = PInt 5" and "dict_get e ''upper_ci'' = PInt 2"
    and "dict_get e ''value'' = PNone \<or> isinstance_int_float (dict_get e ''value'')"
  shows "\<exists>errs. validate_extraction d = Inr errs \<and>
           ''lower_ci cannot be greater than upper_ci'' \<in> set errs"
proof -
  have "as_number (dict_get e ''value'') \<noteq> None" if "dict_get e ''value'' \<noteq> PNone"
    using that assms(4) by (cases "dict_get e ''value''") simp_all
  then have "\<not> effect_comparison_raises e"
    using assms(2,3)
    by (cases "dict_get e ''value''")
      (auto simp: effect_comparison_raises_def chained_le_def Let_def split: option.splits)
  moreover have "ci_order_violation e = [''lower_ci cannot be greater than upper_ci'']"
    using assms(2,3) by (simp add: ci_order_violation_def)
  ultimately show ?thesis
    using assms(1) by (simp add: validate_extraction_eq comparison_raises_def nested_violations_def)
qed

subsection \<open>What a returned list holds\<close>

text \<open>
  The call returns a list exactly when no comparison of checks 6 and 7 raises, and the
  list it returns is the concatenation of what the seven checks report, in the fixed
  order.
\<close>

lemma returned_list_in_check_order:
  "validate_extraction d = Inr errs \<longleftrightarrow>
     \<not> comparison_raises d \<and>
     errs =
       missing_fields d @ sample_size_violations d @ shape_violation d @
       (case dict_get d ''effect_size'' of
          PDict e \<Rightarrow>
            missing_effect_fields e @ numeric_type_violations e @
            ci_order_violation e @ value_range_violation e
        | _ \<Rightarrow> [])"
  by (auto simp: validate_extraction_eq nested_violations_def)

text \<open>
  A record that fails every check but the shape check: four top-level fields missing,
  \<open>sample_size: 0\<close>, and an effect size without \<open>type\<close> whose three numbers are the
  strings \<open>"c"\<close>, \<open>"b"\<close>, \<open>"a"\<close> (strings compare with strings, so nothing raises).
\<close>

lemma returned_list_in_check_order_example:
  "\<not> comparison_raises
       [(''sample_size'', PInt 0),
        (''effect_size'', PDict [(''value'', PStr ''c''), (''lower_ci'', PStr ''b''),
                                 (''upper_ci'', PStr ''a'')])] \<and>
   validate_extraction
       [(''sample_size'', PInt 0),
        (''effect_size'', PDict [(''value'', PStr ''c''), (''lower_ci'', PStr ''b''),
                                 (''upper_ci'', PStr ''a'')])] =
     Inr [''Missing field: title'', ''Missing field: study_design'',
          ''Missing field: population'', ''Missing field: outcome'',
          ''sample_size must be > 0'',
          ''Missing effect_size field: type'',
          ''effect_size.value must be numeric or null'',
          ''effect_size.lower_ci must be numeric or null'',
          ''effect_size.upper_ci must be numeric or null'',
          ''lower_ci cannot be greater than upper_ci'',
          ''effect_size.value must be between lower_ci and upper_ci'']"
proof -
  let ?d = "[(''sample_size'', PInt 0),
        (''effect_size'', PDict [(''value'', PStr ''c''), (''lower_ci'', PStr ''b''),
                                 (''upper_ci'', PStr ''a'')])]"
  have raises: "\<not> comparison_raises ?d"
    by (simp add: check_defs dict_get_def)
  have "missing_fields ?d @ sample_size_violations ?d @ shape_violation ?d @
       (case dict_get ?d ''effect_size'' of
          PDict e \<Rightarrow>
            missing_effect_fields e @ numeric_type_violations e @
            ci_order_violation e @ value_range_violation e
        | _ \<Rightarrow> []) =
     [''Missing field: title'', ''Missing field: study_design'',
          ''Missing field: population'', ''Missing field: outcome'',
          ''sample_size must be > 0'',
          ''Missing effect_size field: type'',
          ''effect_size.value must be numeric or null'',
          ''effect_size.lower_ci must be numeric or null'',
          ''effect_size.upper_ci must be numeric or null'',
          ''lower_ci cannot be greater than upper_ci'',
          ''effect_size.value must be between lower_ci and upper_ci'']"
    by (simp add: check_defs missing_fields_def missing_effect_fields_def REQUIRED_FIELDS_def
        has_key_def dict_get_def)
  with raises returned_list_in_check_order [of ?d] show ?thesis
    by simp
qed

text \<open>
  For a \<open>sample_size\<close> that is an integer less than or equal to zero, the call either
  returns a list that holds the range violation or ends in the raise of a comparison.
  On the scenario's record with \<open>sample_size: -5\<close> the list is exactly that one
  violation, and with \<open>sample_size: 30\<close> it is empty.
\<close>

lemma returned_list_holds_range_violation:
  "(\<forall>d. isinstance_int (dict_get d ''sample_size'') \<and> int_value (dict_get d ''sample_size'') \<le> 0 \<longrightarrow>
      (case validate_extraction d of
         Inl e \<Rightarrow> comparison_raises d
       | Inr errs \<Rightarrow> ''sample_size must be > 0'' \<in> set errs)) \<and>
   validate_extraction
     (study_record (PInt (- 5))
        (PDict (effect_record (PFloat (Finite (3 / 2))) (PFloat (Finite 1)) (PFloat (Finite 2))))) =
     Inr [''sample_size must be > 0''] \<and>
   validate_extraction
     (study_record (PInt 30)
        (PDict (effect_record (PFloat (Finite (3 / 2))) (PFloat (Finite 1)) (PFloat (Finite 2))))) =
     Inr []"
proof (intro conjI allI impI)
  fix d
  assume "isinstance_int (dict_get d ''sample_size'') \<and> int_value (dict_get d ''sample_size'') \<le> 0"
  then have "sample_size_violations d = [''sample_size must be > 0'']"
    by (auto simp: sample_size_violations_def Let_def)
  then show "case validate_extraction d of
         Inl e \<Rightarrow> comparison_raises d
       | Inr errs \<Rightarrow> ''sample_size must be > 0'' \<in> set errs"
    by (simp add: validate_extraction_cases)
qed (simp_all add: validate_extraction_eq study_record_simps effect_record_simps check_defs)

text \<open>
  The scenario's record with \<open>sample_size: False\<close> (the integer 0) and an empty
  effect-size record.
\<close>

lemma returned_list_holds_range_violation_example:
  "isinstance_int (dict_get (study_record (PBool False) (PDict [])) ''sample_size'') \<and>
   int_value (dict_get (study_record (PBool False) (PDict [])) ''sample_size'') \<le> 0 \<and>
   validate_extraction (study_record (PBool False) (PDict [])) =
     Inr [''sample_size must be > 0'', ''Missing effect_size field: type'',
          ''Missing effect_size field: value'', ''Missing effect_size field: lower_ci'',
          ''Missing effect_size field: upper_ci''] \<and>
   (case validate_extraction (study_record (PBool False) (PDict [])) of
      Inl e \<Rightarrow> comparison_raises (study_record (PBool False) (PDict []))
    | Inr errs \<Rightarrow> ''sample_size must be > 0'' \<in> set errs)"
proof -
  let ?d = "study_record (PBool False) (PDict [])"
  have hyp: "isinstance_int (dict_get ?d ''sample_size'') \<and>
      int_value (dict_get ?d ''sample_size'') \<le> 0"
    by (simp add: study_record_simps)
  have ret: "validate_extraction ?d =
     Inr [''sample_size must be > 0'', ''Missing effect_size field: type'',
          ''Missing effect_size field: value'', ''Missing effect_size field: lower_ci'',
          ''Missing effect_size field: upper_ci'']"
    by (simp add: validate_extraction_eq study_record_simps check_defs missing_effect_fields_def
        has_key_def dict_get_empty)
  from returned_list_holds_range_violation have
    "case validate_extraction ?d of
       Inl e \<Rightarrow> comparison_raises ?d
     | Inr errs \<Rightarrow> ''sample_size must be > 0'' \<in> set errs"
    using hyp by blast
  with hyp ret show ?thesis
    by (intro conjI) simp_all
qed

text \<open>
  For a \<open>sample_size\<close> that is a float, integral or not, the call either returns a list
  that holds the type violation and not the range violation, or ends in the raise of a
  comparison.
\<close>

lemma returned_list_holds_type_violation:
  assumes "dict_get d ''sample_size'' = PFloat f"
  shows "case validate_extraction d of
           Inl e \<Rightarrow> comparison_raises d
         | Inr errs \<Rightarrow>
             ''sample_size must be an integer or null'' \<in> set errs \<and>
             ''sample_size must be > 0'' \<notin> set errs"
proof -
  have "sample_size_violations d = [''sample_size must be an integer or null'']"
    using assms by (simp add: sample_size_violations_def)
  then show ?thesis
    using sample_size_messages [of "''sample_size must be an integer or null''" d]
      sample_size_messages [of "''sample_size must be > 0''" d]
    by (simp add: validate_extraction_cases del: set_append)
qed

text \<open>The scenario's record with \<open>sample_size: 30.0\<close>.\<close>

lemma returned_list_holds_type_violation_example:
  "dict_get
     (study_record (PFloat (Finite 30))
        (PDict (effect_record (PFloat (Finite (3 / 2))) (PFloat (Finite 1)) (PFloat (Finite 2)))))
     ''sample_size'' = PFloat (Finite 30) \<and>
   validate_extraction
     (study_record (PFloat (Finite 30))
        (PDict (effect_record (PFloat (Finite (3 / 2))) (PFloat (Finite 1)) (PFloat (Finite 2))))) =
     Inr [''sample_size must be an integer or null''] \<and>
   (case validate_extraction
     (study_record (PFloat (Finite 30))
        (PDict (effect_record (PFloat (Finite (3 / 2))) (PFloat (Finite 1)) (PFloat (Finite 2))))) of
      Inl e \<Rightarrow> comparison_raises (study_record (PFloat (Finite 30))
        (PDict (effect_record (PFloat (Finite (3 / 2))) (PFloat (Finite 1)) (PFloat (Finite 2)))))
    | Inr errs \<Rightarrow>
        ''sample_size must be an integer or null'' \<in> set errs \<and>
        ''sample_size must be > 0'' \<notin> set errs)"
proof -
  let ?d = "study_record (PFloat (Finite 30))
        (PDict (effect_record (PFloat (Finite (3 / 2))) (PFloat (Finite 1)) (PFloat (Finite 2))))"
  have hyp: "dict_get ?d ''sample_size'' = PFloat (Finite 30)"
    by (simp add: study_record_simps)
  have ret: "validate_extraction ?d = Inr [''sample_size must be an integer or null'']"
    by (simp add: validate_extraction_eq study_record_simps effect_record_simps check_defs)
  from hyp ret returned_list_holds_type_violation [OF hyp] show ?thesis
    by (intro conjI)
qed

text \<open>The frame the call ends with, by return or by raise.\<close>

lemma validate_extraction_frame_eq:
  "validate_extraction_frame d =
     check_effect_size \<lparr>data = d, errors = missing_fields d @ sample_size_violations d\<rparr>"
  unfolding validate_extraction_frame_def Let_def check_sample_size_eq check_required_fields_eq
  by simp

section \<open>The claims\<close>

text \<open>
  C1. The claim: for every input record \<open>validate_extraction\<close> returns a list of
  violations and never raises, also when \<open>lower_ci\<close>, \<open>upper_ci\<close> or \<open>value\<close> hold
  non-numeric, non-null values. On the record of the end-to-end scenario with
  \<open>lower_ci: "low"\<close> the non-numeric bound is reported by check 5 and then compared
  with the float \<open>2.0\<close> by \<open>lower > upper\<close>: the call ends in \<open>TypeError\<close> and returns
  no list.
\<close>

theorem validate_extraction_raises_on_text_bound:
  "validate_extraction
     (study_record (PInt 30)
        (PDict (effect_record (PFloat (Finite (3 / 2))) (PStr ''low'') (PFloat (Finite 2))))) =
   Inl TypeError"
  by (simp add: validate_extraction_eq study_record_simps effect_record_simps check_defs)

text \<open>
  C2. The claim: a record with all six required keys, \<open>effect_size\<close> null and every
  other field conforming yields the empty list. It does not: \<open>None\<close> is not a
  dictionary, so check 3 reports the shape violation.
\<close>

theorem null_effect_size_counterexample:
  "validate_extraction (study_record (PInt 30) PNone) = Inr [''effect_size must be an object''] \<and>
   validate_extraction (study_record (PInt 30) PNone) \<noteq> Inr []"
  by (simp add: validate_extraction_eq study_record_simps check_defs)

text \<open>
  C2, as amended: a record with all six required keys, \<open>effect_size\<close> null and
  \<open>sample_size\<close> null or a positive integer yields exactly one violation, the shape
  violation \<open>effect_size must be an object\<close>.
\<close>

theorem null_effect_size_rejected:
  assumes "list_all (has_key d) REQUIRED_FIELDS"
    and "dict_get d ''effect_size'' = PNone"
    and "dict_get d ''sample_size'' = PNone \<or>
         (isinstance_int (dict_get d ''sample_size'') \<and> 0 < int_value (dict_get d ''sample_size''))"
  shows "validate_extraction d = Inr [''effect_size must be an object'']"
proof -
  have "\<not> isinstance_dict (dict_get d ''effect_size'')"
    using assms(2) by simp
  moreover have "sample_size_violations d = []"
    using assms(3) by (auto simp: sample_size_violations_def Let_def)
  ultimately show ?thesis
    using assms(1) by (simp add: validate_extraction_eq not_dict_simps missing_fields_all_present)
qed

text \<open>The amended C2 at the scenario's record with \<open>sample_size: 12\<close> and \<open>effect_size: null\<close>.\<close>

theorem null_effect_size_rejected_witness:
  "list_all (has_key (study_record (PInt 12) PNone)) REQUIRED_FIELDS \<and>
   dict_get (study_record (PInt 12) PNone) ''effect_size'' = PNone \<and>
   isinstance_int (dict_get (study_record (PInt 12) PNone) ''sample_size'') \<and>
   0 < int_value (dict_get (study_record (PInt 12) PNone) ''sample_size'') \<and>
   validate_extraction (study_record (PInt 12) PNone) = Inr [''effect_size must be an object'']"
proof -
  have 1: "list_all (has_key (study_record (PInt 12) PNone)) REQUIRED_FIELDS"
    by (simp add: study_record_def has_key_def REQUIRED_FIELDS_def)
  have 2: "dict_get (study_record (PInt 12) PNone) ''effect_size'' = PNone"
    by (simp add: study_record_simps)
  have 3: "isinstance_int (dict_get (study_record (PInt 12) PNone) ''sample_size'') \<and>
           0 < int_value (dict_get (study_record (PInt 12) PNone) ''sample_size'')"
    by (simp add: study_record_simps)
  from null_effect_size_rejected [OF 1 2 disjI2 [OF 3]] 1 2 3 show ?thesis
    by simp
qed

text \<open>
  C3. When the key \<open>effect_size\<close> is absent, the call returns a list that holds both the
  missing-field violation for \<open>effect_size\<close> and the shape violation; and past the
  presence check absence is treated as a wrong-typed value: adding the key with any
  value that is not a dictionary changes the list only by removing the missing-field
  violation.
\<close>

theorem absent_effect_size_both_violations:
  assumes "\<not> has_key d ''effect_size''"
  shows "\<exists>errs. validate_extraction d = Inr errs \<and>
           ''Missing field: effect_size'' \<in> set errs \<and>
           ''effect_size must be an object'' \<in> set errs \<and>
           (\<forall>v. \<not> isinstance_dict v \<longrightarrow>
              validate_extraction (d @ [(''effect_size'', v)]) =
              Inr (removeAll ''Missing field: effect_size'' errs))"
proof -
  let ?errs = "missing_fields d @ sample_size_violations d @ [''effect_size must be an object'']"
  have none: "dict_get d ''effect_size'' = PNone"
    using assms by (rule absent_get)
  then have ret: "validate_extraction d = Inr ?errs"
    by (simp add: validate_extraction_eq not_dict_simps)
  have missing: "''Missing field: effect_size'' \<in> set (missing_fields d)"
    using assms by (simp add: missing_fields_def REQUIRED_FIELDS_def)
  have same: "validate_extraction (d @ [(''effect_size'', v)]) =
      Inr (removeAll ''Missing field: effect_size'' ?errs)" if "\<not> isinstance_dict v" for v
  proof -
    let ?d = "d @ [(''effect_size'', v)]"
    have "dict_get ?d ''effect_size'' = v"
      using assms by (simp add: dict_get_append)
    with that have "\<not> isinstance_dict (dict_get ?d ''effect_size'')"
      by simp
    then have "validate_extraction ?d =
        Inr (missing_fields ?d @ sample_size_violations ?d @ [''effect_size must be an object''])"
      by (simp add: validate_extraction_eq not_dict_simps)
    moreover have "sample_size_violations ?d = sample_size_violations d"
      by (simp add: sample_size_violations_def dict_get_append absent_get)
    moreover have "removeAll ''Missing field: effect_size'' (sample_size_violations d) =
        sample_size_violations d"
      by (rule removeAll_id) (auto dest: sample_size_violations_cases)
    ultimately show ?thesis
      using missing_fields_append [of d "''effect_size''" v] by simp
  qed
  from ret missing same show ?thesis
    by simp
qed

text \<open>
  C3 on a record with \<open>title\<close> and \<open>sample_size\<close> only, and on the same record with
  \<open>effect_size: "high"\<close> added.
\<close>

theorem absent_effect_size_both_violations_witness:
  "\<not> has_key [(''title'', PStr ''T''), (''sample_size'', PInt 30)] ''effect_size'' \<and>
   validate_extraction [(''title'', PStr ''T''), (''sample_size'', PInt 30)] =
     Inr [''Missing field: study_design'', ''Missing field: population'',
          ''Missing field: outcome'', ''Missing field: effect_size'',
          ''effect_size must be an object''] \<and>
   validate_extraction
     ([(''title'', PStr ''T''), (''sample_size'', PInt 30)] @ [(''effect_size'', PStr ''high'')]) =
     Inr [''Missing field: study_design'', ''Missing field: population'',
          ''Missing field: outcome'', ''effect_size must be an object'']"
proof -
  let ?d = "[(''title'', PStr ''T''), (''sample_size'', PInt 30)]"
  have absent: "\<not> has_key ?d ''effect_size''"
    by (simp add: has_key_def)
  have ret: "validate_extraction ?d =
     Inr [''Missing field: study_design'', ''Missing field: population'',
          ''Missing field: outcome'', ''Missing field: effect_size'',
          ''effect_size must be an object'']"
    by (simp add: eval_defs)
  from absent_effect_size_both_violations [OF absent] obtain errs where
    "validate_extraction ?d = Inr errs" and
    "\<forall>v. \<not> isinstance_dict v \<longrightarrow>
       validate_extraction (?d @ [(''effect_size'', v)]) =
       Inr (removeAll ''Missing field: effect_size'' errs)"
    by blast
  with ret have "validate_extraction (?d @ [(''effect_size'', PStr ''high'')]) =
      Inr (removeAll ''Missing field: effect_size''
        [''Missing field: study_design'', ''Missing field: population'',
          ''Missing field: outcome'', ''Missing field: effect_size'',
          ''effect_size must be an object''])"
    by simp
  with absent ret show ?thesis
    by simp
qed

text \<open>
  C4. When the value of \<open>effect_size\<close> is not a dictionary (absent, null, a string, a
  number, ...), the call returns a list that holds the shape violation and none of the
  violations of the nested checks: no missing sub-field, no numeric-type violation, no
  CI-ordering violation and no value-in-range violation.
\<close>

theorem non_mapping_effect_size_skips_nested:
  assumes "\<not> isinstance_dict (dict_get d ''effect_size'')"
  shows "\<exists>errs. validate_extraction d = Inr errs \<and>
           ''effect_size must be an object'' \<in> set errs \<and>
           (\<forall>name. ''Missing effect_size field: '' @ name \<notin> set errs) \<and>
           (\<forall>name. ''effect_size.'' @ name @ '' must be numeric or null'' \<notin> set errs) \<and>
           ''lower_ci cannot be greater than upper_ci'' \<notin> set errs \<and>
           ''effect_size.value must be between lower_ci and upper_ci'' \<notin> set errs"
proof -
  let ?errs = "missing_fields d @ sample_size_violations d @ [''effect_size must be an object'']"
  have ret: "validate_extraction d = Inr ?errs"
    using assms by (simp add: validate_extraction_eq not_dict_simps)
  have "''Missing effect_size field: '' @ name \<notin> set ?errs" for name
    by (auto dest!: missing_fields_prefix sample_size_violations_cases)
  moreover have "''effect_size.'' @ name @ '' must be numeric or null'' \<notin> set ?errs" for name
    by (auto dest!: missing_fields_prefix sample_size_violations_cases)
  moreover have "''lower_ci cannot be greater than upper_ci'' \<notin> set ?errs"
    by (auto dest!: missing_fields_prefix sample_size_violations_cases)
  moreover have "''effect_size.value must be between lower_ci and upper_ci'' \<notin> set ?errs"
    by (auto dest!: missing_fields_prefix sample_size_violations_cases)
  ultimately show ?thesis
    using ret by simp
qed

text \<open>
  C4 on the specification's scenario: \<open>outcome\<close> missing and \<open>effect_size: "high"\<close>.
\<close>

theorem non_mapping_effect_size_skips_nested_witness:
  "\<not> isinstance_dict
       (dict_get [(''title'', PStr ''T''), (''study_design'', PStr ''D''),
                  (''population'', PStr ''P''), (''sample_size'', PInt 30),
                  (''effect_size'', PStr ''high'')] ''effect_size'') \<and>
   validate_extraction [(''title'', PStr ''T''), (''study_design'', PStr ''D''),
                        (''population'', PStr ''P''), (''sample_size'', PInt 30),
                        (''effect_size'', PStr ''high'')] =
     Inr [''Missing field: outcome'', ''effect_size must be an object''] \<and>
   (\<exists>errs. validate_extraction [(''title'', PStr ''T''), (''study_design'', PStr ''D''),
                        (''population'', PStr ''P''), (''sample_size'', PInt 30),
                        (''effect_size'', PStr ''high'')] = Inr errs \<and>
           ''effect_size must be an object'' \<in> set errs \<and>
           (\<forall>name. ''Missing effect_size field: '' @ name \<notin> set errs) \<and>
           (\<forall>name. ''effect_size.'' @ name @ '' must be numeric or null'' \<notin> set errs) \<and>
           ''lower_ci cannot be greater than upper_ci'' \<notin> set errs \<and>
           ''effect_size.value must be between lower_ci and upper_ci'' \<notin> set errs)"
proof -
  let ?d = "[(''title'', PStr ''T''), (''study_design'', PStr ''D''),
             (''population'', PStr ''P''), (''sample_size'', PInt 30),
             (''effect_size'', PStr ''high'')]"
  have shape: "\<not> isinstance_dict (dict_get ?d ''effect_size'')"
    by (simp add: dict_get_def)
  have ret: "validate_extraction ?d =
      Inr [''Missing field: outcome'', ''effect_size must be an object'']"
    by (simp add: eval_defs)
  from shape ret non_mapping_effect_size_skips_nested [OF shape] show ?thesis
    by (intro conjI)
qed

text \<open>
  C5. The claim: for every input record all checks run, the skip of the nested checks
  for an effect size that is not a record being the only exception, and the returned
  list follows the fixed check sequence. On the scenario's record with \<open>value: 10.0\<close>,
  \<open>lower_ci: "1.0"\<close> and \<open>upper_ci: 2.0\<close> check 5 reports the bound, check 6 compares the
  string with the float and raises, and check 7, which has a violation to report for a
  value above the interval, never runs: the call ends in \<open>TypeError\<close> with one violation
  in the list it was building, and returns no list.
\<close>

theorem check_sequence_cut_short_by_raise:
  "validate_extraction
     (study_record (PInt 30)
        (PDict (effect_record (PFloat (Finite 10)) (PStr ''1.0'') (PFloat (Finite 2))))) =
     Inl TypeError \<and>
   errors (snd (validate_extraction_frame
     (study_record (PInt 30)
        (PDict (effect_record (PFloat (Finite 10)) (PStr ''1.0'') (PFloat (Finite 2))))))) =
     [''effect_size.lower_ci must be numeric or null'']"
  by (simp add: validate_extraction_eq validate_extraction_frame_eq check_effect_size_def
      check_effect_fields_eq study_record_simps effect_record_simps check_defs)

text \<open>
  C6. The call does not modify the record: the frame it ends with, by return or by
  raise, holds the record it was given. Hence a second call on the record as the first
  call left it has the outcome of the first: the same violation list.
\<close>

theorem validate_extraction_pure:
  "data (snd (validate_extraction_frame d)) = d \<and>
   validate_extraction (data (snd (validate_extraction_frame d))) = validate_extraction d"
  by (simp add: validate_extraction_frame_data)

text \<open>
  C7. The claim: with \<open>lower_ci = 5\<close> and \<open>upper_ci = 2\<close> the CI-ordering violation is
  emitted whatever \<open>value\<close> holds, other types included. With \<open>value: "high"\<close> the
  violation is appended, and then \<open>lower <= value\<close> compares \<open>5\<close> with a string: the call
  ends in \<open>TypeError\<close> and returns no list.
\<close>

theorem validate_extraction_raises_on_text_value:
  "validate_extraction
     (study_record (PInt 30) (PDict (effect_record (PStr ''high'') (PInt 5) (PInt 2)))) =
   Inl TypeError"
  by (simp add: validate_extraction_eq study_record_simps effect_record_simps check_defs)

text \<open>
  C8. The claim: for every record whose \<open>sample_size\<close> is an integer less than or equal
  to zero the output holds the range violation. On the scenario's record with
  \<open>sample_size: -5\<close> and \<open>lower_ci: "low"\<close> the range violation is appended, and then
  check 6 compares the string with \<open>2.0\<close>: the call ends in \<open>TypeError\<close> and the list
  that holds the range violation is never returned.
\<close>

theorem range_violation_lost_by_raise:
  "validate_extraction
     (study_record (PInt (- 5))
        (PDict (effect_record (PFloat (Finite (3 / 2))) (PStr ''low'') (PFloat (Finite 2))))) =
     Inl TypeError \<and>
   errors (snd (validate_extraction_frame
     (study_record (PInt (- 5))
        (PDict (effect_record (PFloat (Finite (3 / 2))) (PStr ''low'') (PFloat (Finite 2))))))) =
     [''sample_size must be > 0'', ''effect_size.lower_ci must be numeric or null'']"
  by (simp add: validate_extraction_eq validate_extraction_frame_eq check_effect_size_def
      check_effect_fields_eq study_record_simps effect_record_simps check_defs)



text \<open>
  C10. The claim: for every record whose \<open>sample_size\<close> is a float the call emits the
  type violation. On the scenario's record with \<open>sample_size: 30.0\<close> and
  \<open>lower_ci: "low"\<close> the type violation is appended, and then check 6 compares the
  string with \<open>2.0\<close>: the call ends in \<open>TypeError\<close> and the list that holds the type
  violation is never returned.
\<close>

theorem type_violation_lost_by_raise:
  "validate_extraction
     (study_record (PFloat (Finite 30))
        (PDict (effect_record (PFloat (Finite (3 / 2))) (PStr ''low'') (PFloat (Finite 2))))) =
     Inl TypeError \<and>
   errors (snd (validate_extraction_frame
     (study_record (PFloat (Finite 30))
        (PDict (effect_record (PFloat (Finite (3 / 2))) (PStr ''low'') (PFloat (Finite 2))))))) =
     [''sample_size must be an integer or null'',
      ''effect_size.lower_ci must be numeric or null'']"
  by (simp add: validate_extraction_eq validate_extraction_frame_eq check_effect_size_def
      check_effect_fields_eq study_record_simps effect_record_simps check_defs)

end
